theory Spec2Isabelle
  imports Main "HOL-Library.Sublist" "HOL-Library.Word"
begin

section \<open>Errors\<close>

text \<open>
  Every \<^verbatim>\<open>throw\<close> of the sources is a value of this type. The DuckDB exception classes
  carry the message of the throwing site in a short form, without the values the format
  string inserts; the two exceptions of the C++ standard library that \<^verbatim>\<open>std::stoi\<close> raises
  are constructors of their own, since they are not DuckDB exceptions.
\<close>

datatype error =
    InvalidInputException string
  | InternalException string
  | IOException string
  | NotImplementedException string
  | StdInvalidArgument
  | StdOutOfRange

section \<open>Characters and the string helpers the sources call\<close>

definition backslash :: char where "backslash = CHR 0x5C"
definition dquote :: char where "dquote = CHR 0x22"
definition squote :: char where "squote = CHR 0x27"
definition backtick :: char where "backtick = CHR 0x60"

text \<open>\<^verbatim>\<open>StringUtil::CharacterIsSpace\<close>: blank, tab, newline, vertical tab, form feed, return.\<close>

definition CharacterIsSpace :: "char \<Rightarrow> bool" where
  "CharacterIsSpace c \<longleftrightarrow>
     c = CHR '' '' \<or> c = CHR 0x09 \<or> c = CHR 0x0A \<or> c = CHR 0x0B \<or> c = CHR 0x0C \<or> c = CHR 0x0D"

text \<open>\<^verbatim>\<open>StringUtil::CharacterToLower\<close> and \<^verbatim>\<open>StringUtil::Lower\<close>: ASCII letters only.\<close>

definition CharacterToLower :: "char \<Rightarrow> char" where
  "CharacterToLower c =
     (if (65::nat) \<le> of_char c \<and> of_char c \<le> (90::nat) then char_of (of_char c + (32::nat)) else c)"

definition Lower :: "string \<Rightarrow> string" where
  "Lower s = map CharacterToLower s"

text \<open>\<^verbatim>\<open>StringUtil::CIEquals\<close>, the key equality of a \<^verbatim>\<open>case_insensitive_map_t\<close>.\<close>

definition CIEquals :: "string \<Rightarrow> string \<Rightarrow> bool" where
  "CIEquals a b \<longleftrightarrow> Lower a = Lower b"

text \<open>\<^verbatim>\<open>StringUtil::Contains(haystack, needle)\<close>: \<^verbatim>\<open>haystack.find(needle) != npos\<close>.\<close>

fun Contains :: "string \<Rightarrow> string \<Rightarrow> bool" where
  "Contains [] needle = (needle = [])"
| "Contains (c # cs) needle = (prefix needle (c # cs) \<or> Contains cs needle)"

text \<open>
  \<^verbatim>\<open>StringUtil::Replace(source, from, to)\<close>: scans from the left; at every occurrence of
  \<open>from\<close> it writes \<open>to\<close> and continues behind the occurrence. An empty \<open>from\<close> is an
  internal error.
\<close>

function Replace_from :: "string \<Rightarrow> string \<Rightarrow> string \<Rightarrow> string" where
  "Replace_from [] from to = []"
| "Replace_from (c # cs) from to =
     (if from \<noteq> [] \<and> prefix from (c # cs)
      then to @ Replace_from (drop (length from) (c # cs)) from to
      else c # Replace_from cs from to)"
  by pat_completeness auto
termination
  by (relation "measure (\<lambda>(s, from, to). length s)") (auto simp: neq_Nil_conv)

definition Replace :: "string \<Rightarrow> string \<Rightarrow> string \<Rightarrow> error + string" where
  "Replace source from to =
     (if from = [] then Inl (InternalException ''Invalid argument to StringUtil::Replace - empty FROM'')
      else Inr (Replace_from source from to))"

section \<open>Identifier and literal quoting\<close>

text \<open>
  \<^verbatim>\<open>MySQLUtils::EscapeQuotes\<close> replaces the one-character string \<open>quote\<close> by a backslash
  followed by \<open>quote\<close>. The pattern is never empty, so the error branch of \<open>Replace\<close> is
  not reachable from here and the result is a string.
\<close>

definition EscapeQuotes :: "string \<Rightarrow> char \<Rightarrow> string" where
  "EscapeQuotes text quote = Replace_from text [quote] ([backslash] @ [quote])"

definition WriteQuoted :: "string \<Rightarrow> char \<Rightarrow> string" where
  "WriteQuoted text quote = [quote] @ EscapeQuotes text quote @ [quote]"

definition WriteIdentifier :: "string \<Rightarrow> string" where
  "WriteIdentifier identifier = WriteQuoted identifier backtick"

definition WriteLiteral :: "string \<Rightarrow> string" where
  "WriteLiteral identifier = WriteQuoted identifier squote"

text \<open>The escaping the code performs, character by character.\<close>

definition escape_char :: "char \<Rightarrow> char \<Rightarrow> string" where
  "escape_char quote c = (if c = quote then [backslash, quote] else [c])"

text \<open>
  The escaping the specification describes: the quote character and the backslash are
  both preceded by a backslash.
\<close>

definition spec_escape_char :: "char \<Rightarrow> char \<Rightarrow> string" where
  "spec_escape_char quote c = (if c = quote \<or> c = backslash then [backslash, c] else [c])"

definition spec_WriteQuoted :: "string \<Rightarrow> char \<Rightarrow> string" where
  "spec_WriteQuoted text quote = [quote] @ concat (map (spec_escape_char quote) text) @ [quote]"

lemma EscapeQuotes_concat: "EscapeQuotes s q = concat (map (escape_char q) s)"
  by (induction s) (auto simp add: EscapeQuotes_def escape_char_def)

text \<open>
  C1 (as amended). \<open>WriteIdentifier s\<close> is \<open>s\<close> between backticks with a backslash before
  every backtick of \<open>s\<close>, and \<open>WriteLiteral s\<close> is \<open>s\<close> between single quotes with a backslash
  before every single quote of \<open>s\<close>; every other character, the backslash included, is
  copied unchanged.
\<close>

theorem C1_quoting_escapes_only_the_quote:
  "WriteIdentifier s = [backtick] @ concat (map (escape_char backtick) s) @ [backtick]
   \<and> WriteLiteral s = [squote] @ concat (map (escape_char squote) s) @ [squote]
   \<and> escape_char backtick backslash = [backslash]
   \<and> escape_char squote backslash = [backslash]
   \<and> escape_char backtick backtick = [backslash, backtick]
   \<and> escape_char squote squote = [backslash, squote]"
  by (simp add: WriteIdentifier_def WriteLiteral_def WriteQuoted_def EscapeQuotes_concat
      escape_char_def backslash_def backtick_def squote_def)

text \<open>
  C1 (as stated) fails: for the one-character string holding a backslash the code returns
  the backslash unescaped between the quotes, where the specification's escaping doubles it.
\<close>

theorem C1_backslash_not_escaped_counterexample:
  "WriteIdentifier [backslash] = [backtick, backslash, backtick]
   \<and> WriteIdentifier [backslash] \<noteq> spec_WriteQuoted [backslash] backtick
   \<and> WriteLiteral [backslash] = [squote, backslash, squote]
   \<and> WriteLiteral [backslash] \<noteq> spec_WriteQuoted [backslash] squote"
  by (simp add: WriteIdentifier_def WriteLiteral_def WriteQuoted_def EscapeQuotes_def
      spec_WriteQuoted_def spec_escape_char_def backslash_def backtick_def squote_def)

section \<open>Connection parameters\<close>

unbundle bit_operations_syntax

text \<open>
  \<^verbatim>\<open>struct MySQLConnectionParameters\<close> of \<^verbatim>\<open>mysql_utils.hpp\<close>. The port is a \<^verbatim>\<open>uint32_t\<close>,
  the client flags an \<^verbatim>\<open>idx_t\<close>; the three flag constants are those of \<^verbatim>\<open>mysql.h\<close>.
\<close>

record MySQLConnectionParameters =
  host :: string
  user :: string
  passwd :: string
  db :: string
  port :: "32 word"
  unix_socket :: string
  workload :: string
  client_flag :: "64 word"

definition CLIENT_COMPRESS :: "64 word" where "CLIENT_COMPRESS = 32"
definition CLIENT_IGNORE_SIGPIPE :: "64 word" where "CLIENT_IGNORE_SIGPIPE = 4096"
definition CLIENT_MULTI_STATEMENTS :: "64 word" where "CLIENT_MULTI_STATEMENTS = push_bit 16 1"

definition default_parameters :: MySQLConnectionParameters where
  "default_parameters =
     \<lparr>host = [], user = [], passwd = [], db = [], port = 0, unix_socket = [], workload = [],
      client_flag = CLIENT_COMPRESS OR CLIENT_IGNORE_SIGPIPE OR CLIENT_MULTI_STATEMENTS\<rparr>"

subsection \<open>Reading one key or value\<close>

text \<open>
  \<^verbatim>\<open>ParseValue(dsn, pos, result)\<close> reads from position \<open>pos\<close> and advances it. The model
  takes the part of the DSN from \<open>pos\<close> on and returns what was read together with the
  part that is left, \<open>None\<close> where the source returns \<^verbatim>\<open>false\<close> (only blanks were left).
  \<open>scan_quoted\<close> is the loop behind an opening double quote.
\<close>

fun scan_quoted :: "string \<Rightarrow> string \<Rightarrow> error + (string \<times> string)" where
  "scan_quoted [] result = Inl (InvalidInputException ''Invalid dsn - unterminated quote'')"
| "scan_quoted [c] result =
     (if c = dquote then Inr (result, [])
      else if c = backslash then Inl (InvalidInputException ''Invalid dsn - backslash at end of dsn'')
      else scan_quoted [] (result @ [c]))"
| "scan_quoted (c # d # rest) result =
     (if c = dquote then Inr (result, d # rest)
      else if c = backslash then
        (if d \<noteq> backslash \<and> d \<noteq> dquote
         then Inl (InvalidInputException ''Invalid dsn - backslash can only escape backslash or quote'')
         else scan_quoted rest (result @ [d]))
      else scan_quoted (d # rest) (result @ [c]))"

definition unquoted_char :: "char \<Rightarrow> bool" where
  "unquoted_char c \<longleftrightarrow> c \<noteq> CHR ''='' \<and> \<not> CharacterIsSpace c"

definition ParseValue :: "string \<Rightarrow> error + (string \<times> string) option" where
  "ParseValue dsn =
     (case dropWhile CharacterIsSpace dsn of
        [] \<Rightarrow> Inr None
      | c # rest \<Rightarrow>
          if c = dquote then map_sum id Some (scan_quoted rest [])
          else Inr (Some (takeWhile unquoted_char (c # rest), dropWhile unquoted_char (c # rest))))"

lemma scan_quoted_length:
  "scan_quoted s acc = Inr (v, r) \<Longrightarrow> length r < length s"
  by (induction s acc rule: scan_quoted.induct) (auto split: if_splits)

lemma ParseValue_length:
  "ParseValue s = Inr (Some (v, r)) \<Longrightarrow> length r \<le> length s"
proof -
  assume a: "ParseValue s = Inr (Some (v, r))"
  have d: "length (dropWhile CharacterIsSpace s) \<le> length s"
    by (rule length_dropWhile_le)
  show ?thesis
  proof (cases "dropWhile CharacterIsSpace s")
    case Nil
    with a show ?thesis by (simp add: ParseValue_def)
  next
    case (Cons c rest)
    show ?thesis
    proof (cases "c = dquote")
      case True
      with a Cons obtain "scan_quoted rest [] = Inr (v, r)"
        by (cases "scan_quoted rest []") (auto simp: ParseValue_def)
      then have "length r < length rest" by (rule scan_quoted_length)
      with d Cons show ?thesis by simp
    next
      case False
      with a Cons have "r = dropWhile unquoted_char (c # rest)"
        by (auto simp: ParseValue_def)
      then have "length r \<le> length (c # rest)"
        using length_dropWhile_le by metis
      with d Cons show ?thesis by simp
    qed
  qed
qed

subsection \<open>The port\<close>

text \<open>
  \<^verbatim>\<open>std::stoi\<close>: leading white space is skipped, one sign is accepted, then the longest run
  of decimal digits is read and whatever follows is ignored. No digit raises
  \<^verbatim>\<open>std::invalid_argument\<close>, a value that does not fit an \<^verbatim>\<open>int\<close> raises
  \<^verbatim>\<open>std::out_of_range\<close>.
\<close>

definition isdigit :: "char \<Rightarrow> bool" where
  "isdigit c \<longleftrightarrow> (48::nat) \<le> of_char c \<and> of_char c \<le> (57::nat)"

definition digits_value :: "string \<Rightarrow> int" where
  "digits_value ds = foldl (\<lambda>a c. 10 * a + (int (of_char c) - 48)) 0 ds"

definition stoi :: "string \<Rightarrow> error + int" where
  "stoi str =
     (let s1 = dropWhile CharacterIsSpace str;
          negative = (case s1 of [] \<Rightarrow> False | c # _ \<Rightarrow> c = CHR ''-'');
          s2 = (case s1 of [] \<Rightarrow> [] | c # r \<Rightarrow> if c = CHR ''-'' \<or> c = CHR ''+'' then r else s1);
          ds = takeWhile isdigit s2
      in if ds = [] then Inl StdInvalidArgument
         else let v = (if negative then - digits_value ds else digits_value ds)
              in if v < - (2 ^ 31) \<or> 2 ^ 31 - 1 < v then Inl StdOutOfRange else Inr v)"

definition PORT_MIN :: int where "PORT_MIN = 0"
definition PORT_MAX :: int where "PORT_MAX = 65353"

definition ParsePort :: "string \<Rightarrow> error + 32 word" where
  "ParsePort value =
     (case stoi value of
        Inl e \<Rightarrow> Inl e
      | Inr port_val \<Rightarrow>
          if port_val < PORT_MIN \<or> port_val > PORT_MAX
          then Inl (InvalidInputException ''Invalid port - port must be between 0 and 65353'')
          else Inr (word_of_int port_val))"

subsection \<open>The options of the DSN\<close>

text \<open>
  The body of the \<^verbatim>\<open>while\<close> loop of \<^verbatim>\<open>ParseConnectionParameters\<close>: the chain of
  comparisons on the lower-cased key (\<open>apply_option\<close>), and the loop itself
  (\<open>parse_options\<close>), which carries the record being filled and \<^verbatim>\<open>set_options\<close>.
\<close>

type_synonym parse_state = "MySQLConnectionParameters \<times> string set"

definition apply_option :: "string \<Rightarrow> string \<Rightarrow> parse_state \<Rightarrow> error + parse_state" where
  "apply_option key value st =
     (case st of (result, set_options) \<Rightarrow>
        if key = ''host'' then Inr (result\<lparr>host := value\<rparr>, insert ''host'' set_options)
        else if key = ''user'' then Inr (result\<lparr>user := value\<rparr>, insert ''user'' set_options)
        else if key = ''passwd'' \<or> key = ''password''
          then Inr (result\<lparr>passwd := value\<rparr>, insert ''password'' set_options)
        else if key = ''db'' \<or> key = ''database''
          then Inr (result\<lparr>db := value\<rparr>, insert ''database'' set_options)
        else if key = ''port'' then
          (case ParsePort value of
             Inl e \<Rightarrow> Inl e
           | Inr p \<Rightarrow> Inr (result\<lparr>port := p\<rparr>, insert ''port'' set_options))
        else if key = ''socket'' \<or> key = ''unix_socket''
          then Inr (result\<lparr>unix_socket := value\<rparr>, insert ''socket'' set_options)
        else if key = ''workload'' then Inr (result\<lparr>workload := value\<rparr>, insert ''workload'' set_options)
        else Inl (InvalidInputException ''Unrecognized configuration parameter''))"

definition expected_pairs :: error where
  "expected_pairs = InvalidInputException ''Invalid dsn - expected key=value pairs separated by spaces''"

function parse_options :: "string \<Rightarrow> parse_state \<Rightarrow> error + parse_state" where
  "parse_options dsn st =
     (if dsn = [] then Inr st
      else case ParseValue dsn of
        Inl e \<Rightarrow> Inl e
      | Inr None \<Rightarrow> Inr st
      | Inr (Some (key, after_key)) \<Rightarrow>
          (case after_key of
             [] \<Rightarrow> Inl expected_pairs
           | c # after_eq \<Rightarrow>
               if c \<noteq> CHR ''='' then Inl expected_pairs
               else case ParseValue after_eq of
                 Inl e \<Rightarrow> Inl e
               | Inr None \<Rightarrow> Inl expected_pairs
               | Inr (Some (value, rest)) \<Rightarrow>
                   (case apply_option (Lower key) value st of
                      Inl e \<Rightarrow> Inl e
                    | Inr st' \<Rightarrow> parse_options rest st')))"
  by pat_completeness auto
termination
proof (relation "measure (\<lambda>(dsn, st). length dsn)")
  show "wf (measure (\<lambda>(dsn, st). length dsn))" by simp
next
  fix dsn :: string and st :: parse_state and x2 x2a x y c after_eq x2c x2d xa rest st'
  assume "ParseValue dsn = Inr x2" "x2 = Some x2a" "(x, y) = x2a" "y = c # after_eq"
    "ParseValue after_eq = Inr x2c" "x2c = Some x2d" "(xa, rest) = x2d"
  then have "length (c # after_eq) \<le> length dsn" "length rest \<le> length after_eq"
    using ParseValue_length by metis+
  then show "((rest, st'), dsn, st) \<in> measure (\<lambda>(dsn, st). length dsn)" by simp
qed

subsection \<open>The environment\<close>

text \<open>
  The process environment is a parameter: \<open>getenv name\<close> is \<open>None\<close> where
  \<^verbatim>\<open>std::getenv\<close> returns a null pointer.
\<close>

type_synonym environment = "string \<rightharpoonup> string"

definition ReadOptionFromEnv :: "environment \<Rightarrow> string \<Rightarrow> string \<Rightarrow> bool \<times> string" where
  "ReadOptionFromEnv getenv env result =
     (case getenv env of None \<Rightarrow> (False, result) | Some res \<Rightarrow> (True, res))"

definition fill_from_environment ::
  "environment \<Rightarrow> parse_state \<Rightarrow> error + MySQLConnectionParameters" where
  "fill_from_environment getenv st =
     (case st of (result, set_options) \<Rightarrow>
        let result = (if ''host'' \<notin> set_options
                      then result\<lparr>host := snd (ReadOptionFromEnv getenv ''MYSQL_HOST'' (host result))\<rparr>
                      else result);
            result = (if ''password'' \<notin> set_options
                      then result\<lparr>passwd := snd (ReadOptionFromEnv getenv ''MYSQL_PWD'' (passwd result))\<rparr>
                      else result);
            result = (if ''user'' \<notin> set_options
                      then result\<lparr>user := snd (ReadOptionFromEnv getenv ''MYSQL_USER'' (user result))\<rparr>
                      else result);
            result = (if ''database'' \<notin> set_options
                      then result\<lparr>db := snd (ReadOptionFromEnv getenv ''MYSQL_DATABASE'' (db result))\<rparr>
                      else result);
            result = (if ''socket'' \<notin> set_options
                      then result\<lparr>unix_socket :=
                             snd (ReadOptionFromEnv getenv ''MYSQL_UNIX_PORT'' (unix_socket result))\<rparr>
                      else result)
        in if ''port'' \<notin> set_options
           then (case ReadOptionFromEnv getenv ''MYSQL_TCP_PORT'' [] of
                   (True, port_number) \<Rightarrow>
                     (case ParsePort port_number of
                        Inl e \<Rightarrow> Inl e
                      | Inr p \<Rightarrow> Inr (result\<lparr>port := p\<rparr>))
                 | (False, _) \<Rightarrow> Inr result)
           else Inr result)"

definition ParseConnectionParameters :: "environment \<Rightarrow> string \<Rightarrow> error + MySQLConnectionParameters" where
  "ParseConnectionParameters getenv dsn =
     (case parse_options dsn (default_parameters, {}) of
        Inl e \<Rightarrow> Inl e
      | Inr st \<Rightarrow> fill_from_environment getenv st)"

subsection \<open>What the option loop leaves untouched\<close>











subsection \<open>The environment phase in closed form\<close>

definition from_env :: "environment \<Rightarrow> string set \<Rightarrow> string \<Rightarrow> string \<Rightarrow> string \<Rightarrow> string" where
  "from_env getenv set_options option env current =
     (if option \<in> set_options then current
      else case getenv env of None \<Rightarrow> current | Some res \<Rightarrow> res)"

definition filled_strings :: "environment \<Rightarrow> parse_state \<Rightarrow> MySQLConnectionParameters" where
  "filled_strings getenv st =
     (case st of (result, set_options) \<Rightarrow>
        result\<lparr>host := from_env getenv set_options ''host'' ''MYSQL_HOST'' (host result),
               passwd := from_env getenv set_options ''password'' ''MYSQL_PWD'' (passwd result),
               user := from_env getenv set_options ''user'' ''MYSQL_USER'' (user result),
               db := from_env getenv set_options ''database'' ''MYSQL_DATABASE'' (db result),
               unix_socket := from_env getenv set_options ''socket'' ''MYSQL_UNIX_PORT'' (unix_socket result)\<rparr>)"

lemma fill_from_environment_eq:
  "fill_from_environment getenv (result, set_options) =
     (if ''port'' \<in> set_options then Inr (filled_strings getenv (result, set_options))
      else case getenv ''MYSQL_TCP_PORT'' of
        None \<Rightarrow> Inr (filled_strings getenv (result, set_options))
      | Some port_number \<Rightarrow>
          map_sum id (\<lambda>p. (filled_strings getenv (result, set_options))\<lparr>port := p\<rparr>) (ParsePort port_number))"
proof -
  have h: "\<And>r. (if ''host'' \<notin> set_options
                      then r\<lparr>host := snd (ReadOptionFromEnv getenv ''MYSQL_HOST'' (host r))\<rparr>
                      else r) = r\<lparr>host := from_env getenv set_options ''host'' ''MYSQL_HOST'' (host r)\<rparr>"
    by (simp add: from_env_def ReadOptionFromEnv_def split: option.splits)
  have p: "\<And>r. (if ''password'' \<notin> set_options
                      then r\<lparr>passwd := snd (ReadOptionFromEnv getenv ''MYSQL_PWD'' (passwd r))\<rparr>
                      else r) = r\<lparr>passwd := from_env getenv set_options ''password'' ''MYSQL_PWD'' (passwd r)\<rparr>"
    by (simp add: from_env_def ReadOptionFromEnv_def split: option.splits)
  have u: "\<And>r. (if ''user'' \<notin> set_options
                      then r\<lparr>user := snd (ReadOptionFromEnv getenv ''MYSQL_USER'' (user r))\<rparr>
                      else r) = r\<lparr>user := from_env getenv set_options ''user'' ''MYSQL_USER'' (user r)\<rparr>"
    by (simp add: from_env_def ReadOptionFromEnv_def split: option.splits)
  have d: "\<And>r. (if ''database'' \<notin> set_options
                      then r\<lparr>db := snd (ReadOptionFromEnv getenv ''MYSQL_DATABASE'' (db r))\<rparr>
                      else r) = r\<lparr>db := from_env getenv set_options ''database'' ''MYSQL_DATABASE'' (db r)\<rparr>"
    by (simp add: from_env_def ReadOptionFromEnv_def split: option.splits)
  have s: "\<And>r. (if ''socket'' \<notin> set_options
                      then r\<lparr>unix_socket := snd (ReadOptionFromEnv getenv ''MYSQL_UNIX_PORT'' (unix_socket r))\<rparr>
                      else r) = r\<lparr>unix_socket := from_env getenv set_options ''socket'' ''MYSQL_UNIX_PORT'' (unix_socket r)\<rparr>"
    by (simp add: from_env_def ReadOptionFromEnv_def split: option.splits)
  show ?thesis
    unfolding fill_from_environment_def prod.case Let_def h p u d s filled_strings_def
    by (simp add: ReadOptionFromEnv_def split: option.splits sum.splits)
qed


lemma ParseConnectionParameters_succeeds:
  assumes "parse_options dsn (default_parameters, {}) = Inr (r0, opts)"
    and "''port'' \<in> opts \<or> getenv ''MYSQL_TCP_PORT'' = None
         \<or> (\<exists>v p. getenv ''MYSQL_TCP_PORT'' = Some v \<and> ParsePort v = Inr p)"
  shows "\<exists>r. ParseConnectionParameters getenv dsn = Inr r"
  using assms by (auto simp: ParseConnectionParameters_def fill_from_environment_eq)

subsection \<open>Values between double quotes, and the number of a port\<close>













lemmas dsn_eval = ParseConnectionParameters_def ParseValue_def CharacterIsSpace_def dquote_def unquoted_char_def
     apply_option_def Lower_def CharacterToLower_def ParsePort_def stoi_def isdigit_def digits_value_def PORT_MIN_def PORT_MAX_def
     fill_from_environment_def ReadOptionFromEnv_def default_parameters_def Let_def



lemma ParsePort_accepts:
  "(\<exists>p. ParsePort v = Inr p) \<longleftrightarrow> (\<exists>n. stoi v = Inr n \<and> 0 \<le> n \<and> n \<le> 65353)"
  by (cases "stoi v") (auto simp: ParsePort_def PORT_MIN_def PORT_MAX_def)

text \<open>
  C3. The port \<open>65400\<close> lies in \<open>0..65535\<close>, and the DSN \<open>port=65400\<close> is rejected:
  \<^verbatim>\<open>PORT_MAX\<close> is 65353. A port that is no number is rejected by \<^verbatim>\<open>std::stoi\<close>, with
  the standard library's exception rather than an \<^verbatim>\<open>InvalidInputException\<close>.
\<close>

theorem C3_port_65400_rejected:
  "stoi ''65400'' = Inr 65400
   \<and> ParsePort ''65400'' = Inl (InvalidInputException ''Invalid port - port must be between 0 and 65353'')
   \<and> ParseConnectionParameters getenv ''port=65400'' =
       Inl (InvalidInputException ''Invalid port - port must be between 0 and 65353'')
   \<and> ParseConnectionParameters getenv ''port=abc'' = Inl StdInvalidArgument"
  by (simp add: dsn_eval)

section \<open>Connecting\<close>

text \<open>
  \<^verbatim>\<open>MySQLUtils::Connect\<close>. The client library is a parameter: \<open>mysql_init\<close> says whether
  \<^verbatim>\<open>mysql_init(NULL)\<close> returned a handle, and \<open>mysql_real_connect\<close> whether a call with the
  given arguments returned one. An argument is \<open>None\<close> where the source passes a null
  pointer. The model returns, next to the outcome, the calls of \<^verbatim>\<open>mysql_real_connect\<close> it
  made, in order.
\<close>

record connect_call =
  call_host :: "string option"
  call_user :: "string option"
  call_passwd :: "string option"
  call_db :: "string option"
  call_port :: "32 word"
  call_unix_socket :: "string option"
  call_client_flag :: "64 word"

definition c_str_or_null :: "string \<Rightarrow> string option" where
  "c_str_or_null s = (if s = [] then None else Some s)"

definition db_with_workload :: "MySQLConnectionParameters \<Rightarrow> string" where
  "db_with_workload config =
     (let workload_param = (if workload config \<noteq> [] then ''workload='' @ workload config else []);
          db_with_workload = host config
      in if workload_param \<noteq> [] then
           (if CHR ''?'' \<in> set db_with_workload
            then db_with_workload @ ''&'' @ drop 1 workload_param
            else db_with_workload @ ''?'' @ workload_param)
         else db_with_workload)"

definition connect_arguments :: "MySQLConnectionParameters \<Rightarrow> connect_call" where
  "connect_arguments config =
     \<lparr>call_host = c_str_or_null (host config),
      call_user = c_str_or_null (user config),
      call_passwd = c_str_or_null (passwd config),
      call_db = c_str_or_null (db_with_workload config),
      call_port = port config,
      call_unix_socket = c_str_or_null (unix_socket config),
      call_client_flag = client_flag config\<rparr>"

definition Connect ::
  "environment \<Rightarrow> bool \<Rightarrow> (connect_call \<Rightarrow> bool) \<Rightarrow> string \<Rightarrow> (error + unit) \<times> connect_call list" where
  "Connect getenv mysql_init mysql_real_connect dsn =
     (if \<not> mysql_init then (Inl (IOException ''Failure in mysql_init''), [])
      else case ParseConnectionParameters getenv dsn of
        Inl e \<Rightarrow> (Inl e, [])
      | Inr config \<Rightarrow>
          let first = connect_arguments config in
          if mysql_real_connect first then (Inr (), [first])
          else if host config = [] \<or> host config = ''localhost'' then
            (let retry = first\<lparr>call_host := Some ''127.0.0.1''\<rparr> in
             if mysql_real_connect retry then (Inr (), [first, retry])
             else (Inl (IOException ''Failed to connect to MySQL database''), [first, retry]))
          else (Inl (IOException ''Failed to connect to MySQL database''), [first]))"

lemma db_with_workload_eq:
  "db_with_workload config =
     host config @
       (if workload config = [] then []
        else if CHR ''?'' \<in> set (host config) then ''&orkload='' @ workload config
        else ''?workload='' @ workload config)"
  by (simp add: db_with_workload_def Let_def)

text \<open>
  C9. Whenever \<open>Connect\<close> reaches the driver, every call it makes passes as database
  argument the host string, followed by \<open>?workload=\<close> and the tag when a workload is set
  (after a host that holds a question mark: by \<open>&orkload=\<close> and the tag, the first
  character of the parameter being cut off); the \<open>db\<close> field of the parsed parameters
  has no influence on it.
\<close>

theorem C9_database_argument_is_host:
  assumes "mysql_init" and "ParseConnectionParameters getenv dsn = Inr config"
  shows "snd (Connect getenv mysql_init mysql_real_connect dsn) \<noteq> []
     \<and> (\<forall>call \<in> set (snd (Connect getenv mysql_init mysql_real_connect dsn)).
           call_db call = c_str_or_null (db_with_workload config))
     \<and> db_with_workload config =
          host config @
            (if workload config = [] then []
             else if CHR ''?'' \<in> set (host config) then ''&orkload='' @ workload config
             else ''?workload='' @ workload config)
     \<and> (\<forall>d. db_with_workload (config\<lparr>db := d\<rparr>) = db_with_workload config)"
proof -
  have calls: "snd (Connect getenv mysql_init mysql_real_connect dsn) \<noteq> []
     \<and> (\<forall>call \<in> set (snd (Connect getenv mysql_init mysql_real_connect dsn)).
           call_db call = c_str_or_null (db_with_workload config))"
    using assms by (simp add: Connect_def Let_def connect_arguments_def)
  have indep: "\<forall>d. db_with_workload (config\<lparr>db := d\<rparr>) = db_with_workload config"
    by (simp add: db_with_workload_def)
  from calls indep db_with_workload_eq show ?thesis by blast
qed

theorem C9_database_argument_is_host_witness:
  "snd (Connect Map.empty True (\<lambda>call. True) ''host=h db=d workload=w'') \<noteq> []
   \<and> list_all (\<lambda>call. call_db call = Some ''h?workload=w'')
         (snd (Connect Map.empty True (\<lambda>call. True) ''host=h db=d workload=w''))"
proof -
  have p: "ParseConnectionParameters Map.empty ''host=h db=d workload=w'' =
      Inr (default_parameters\<lparr>host := ''h'', db := ''d'', workload := ''w''\<rparr>)"
    by (simp add: dsn_eval)
  show ?thesis
    using C9_database_argument_is_host[OF TrueI p, of "\<lambda>call. True"]
    by (simp add: c_str_or_null_def default_parameters_def list_all_iff)
qed

section \<open>Type mapping\<close>

text \<open>
  DuckDB's \<^verbatim>\<open>LogicalType\<close>: the type id that \<^verbatim>\<open>input.id()\<close> returns, and the extra
  information of the parameterised types (width and scale of a decimal, the child types
  of the nested types). \<open>plain i\<close> is the constant \<^verbatim>\<open>LogicalType::i\<close>.
\<close>

datatype LogicalTypeId =
    SQLNULL | BOOLEAN | TINYINT | SMALLINT | INTEGER | BIGINT
  | UTINYINT | USMALLINT | UINTEGER | UBIGINT | HUGEINT
  | FLOAT | DOUBLE | DECIMAL | DATE | TIME | TIME_TZ
  | TIMESTAMP | TIMESTAMP_TZ | TIMESTAMP_SEC | TIMESTAMP_MS | TIMESTAMP_NS
  | INTERVAL | VARCHAR | BLOB | BIT | UUID | ENUM
  | LIST | STRUCT | MAP | UNION

datatype LogicalType = LogicalType (type_id: LogicalTypeId) (extra_info: ExtraTypeInfo)
  and ExtraTypeInfo =
    NoTypeInfo
  | DecimalTypeInfo int int
  | ListTypeInfo LogicalType
  | StructTypeInfo "(string \<times> LogicalType) list"

definition plain :: "LogicalTypeId \<Rightarrow> LogicalType" where
  "plain i = LogicalType i NoTypeInfo"

text \<open>
  \<^verbatim>\<open>MySQLUtils::ToMySQLType\<close>: the \<^verbatim>\<open>switch\<close> on the type id, in the order of the source;
  the last case is its \<^verbatim>\<open>default\<close>.
\<close>

definition ToMySQLType :: "LogicalType \<Rightarrow> error + LogicalType" where
  "ToMySQLType input =
     (case type_id input of
        BOOLEAN \<Rightarrow> Inr input
      | SMALLINT \<Rightarrow> Inr input
      | INTEGER \<Rightarrow> Inr input
      | BIGINT \<Rightarrow> Inr input
      | TINYINT \<Rightarrow> Inr input
      | UTINYINT \<Rightarrow> Inr input
      | USMALLINT \<Rightarrow> Inr input
      | UINTEGER \<Rightarrow> Inr input
      | UBIGINT \<Rightarrow> Inr input
      | FLOAT \<Rightarrow> Inr input
      | DOUBLE \<Rightarrow> Inr input
      | BLOB \<Rightarrow> Inr input
      | DATE \<Rightarrow> Inr input
      | DECIMAL \<Rightarrow> Inr input
      | TIMESTAMP \<Rightarrow> Inr input
      | TIMESTAMP_TZ \<Rightarrow> Inr input
      | VARCHAR \<Rightarrow> Inr input
      | LIST \<Rightarrow> Inl (NotImplementedException ''MySQL does not support arrays - unsupported type'')
      | STRUCT \<Rightarrow> Inl (NotImplementedException ''MySQL does not support composite types - unsupported type'')
      | MAP \<Rightarrow> Inl (NotImplementedException ''MySQL does not support composite types - unsupported type'')
      | UNION \<Rightarrow> Inl (NotImplementedException ''MySQL does not support composite types - unsupported type'')
      | TIMESTAMP_SEC \<Rightarrow> Inr (plain TIMESTAMP)
      | TIMESTAMP_MS \<Rightarrow> Inr (plain TIMESTAMP)
      | TIMESTAMP_NS \<Rightarrow> Inr (plain TIMESTAMP)
      | HUGEINT \<Rightarrow> Inr (plain DOUBLE)
      | _ \<Rightarrow> Inr (plain VARCHAR))"

text \<open>
  C6. \<open>ToMySQLType\<close> raises for a list, struct, map or union type, whatever its
  children, and so returns no type for them; it returns the timestamp type for the second,
  millisecond and nanosecond timestamps and double for the 128-bit integer; boolean, the
  eight integer widths, float, double, blob, date, decimal, both timestamps and text are
  returned unchanged, extra information included.
\<close>

theorem C6_ToMySQLType:
  "ToMySQLType (LogicalType LIST info) = Inl (NotImplementedException ''MySQL does not support arrays - unsupported type'')
   \<and> ToMySQLType (LogicalType STRUCT info) = Inl (NotImplementedException ''MySQL does not support composite types - unsupported type'')
   \<and> ToMySQLType (LogicalType MAP info) = Inl (NotImplementedException ''MySQL does not support composite types - unsupported type'')
   \<and> ToMySQLType (LogicalType UNION info) = Inl (NotImplementedException ''MySQL does not support composite types - unsupported type'')
   \<and> ToMySQLType (LogicalType TIMESTAMP_SEC info) = Inr (plain TIMESTAMP)
   \<and> ToMySQLType (LogicalType TIMESTAMP_MS info) = Inr (plain TIMESTAMP)
   \<and> ToMySQLType (LogicalType TIMESTAMP_NS info) = Inr (plain TIMESTAMP)
   \<and> ToMySQLType (LogicalType HUGEINT info) = Inr (plain DOUBLE)
   \<and> ToMySQLType (LogicalType BOOLEAN info) = Inr (LogicalType BOOLEAN info)
   \<and> ToMySQLType (LogicalType TINYINT info) = Inr (LogicalType TINYINT info)
   \<and> ToMySQLType (LogicalType SMALLINT info) = Inr (LogicalType SMALLINT info)
   \<and> ToMySQLType (LogicalType INTEGER info) = Inr (LogicalType INTEGER info)
   \<and> ToMySQLType (LogicalType BIGINT info) = Inr (LogicalType BIGINT info)
   \<and> ToMySQLType (LogicalType UTINYINT info) = Inr (LogicalType UTINYINT info)
   \<and> ToMySQLType (LogicalType USMALLINT info) = Inr (LogicalType USMALLINT info)
   \<and> ToMySQLType (LogicalType UINTEGER info) = Inr (LogicalType UINTEGER info)
   \<and> ToMySQLType (LogicalType UBIGINT info) = Inr (LogicalType UBIGINT info)
   \<and> ToMySQLType (LogicalType FLOAT info) = Inr (LogicalType FLOAT info)
   \<and> ToMySQLType (LogicalType DOUBLE info) = Inr (LogicalType DOUBLE info)
   \<and> ToMySQLType (LogicalType BLOB info) = Inr (LogicalType BLOB info)
   \<and> ToMySQLType (LogicalType DATE info) = Inr (LogicalType DATE info)
   \<and> ToMySQLType (LogicalType DECIMAL info) = Inr (LogicalType DECIMAL info)
   \<and> ToMySQLType (LogicalType TIMESTAMP info) = Inr (LogicalType TIMESTAMP info)
   \<and> ToMySQLType (LogicalType TIMESTAMP_TZ info) = Inr (LogicalType TIMESTAMP_TZ info)
   \<and> ToMySQLType (LogicalType VARCHAR info) = Inr (LogicalType VARCHAR info)"
  by (simp add: ToMySQLType_def)

text \<open>
  \<^verbatim>\<open>struct MySQLTypeData\<close> and \<^verbatim>\<open>MySQLUtils::TypeToLogicalType\<close>. Of the client context
  only the boolean settings are read: \<open>context key\<close> is \<open>None\<close> where
  \<^verbatim>\<open>TryGetCurrentSetting\<close> finds no such setting.
\<close>

record MySQLTypeData =
  type_name :: string
  column_type :: string
  precision :: int
  scale :: int

type_synonym ClientContext = "string \<rightharpoonup> bool"

definition TryGetCurrentSetting :: "ClientContext \<Rightarrow> string \<Rightarrow> bool" where
  "TryGetCurrentSetting context key = (case context key of None \<Rightarrow> False | Some b \<Rightarrow> b)"

definition TypeToLogicalType :: "ClientContext \<Rightarrow> MySQLTypeData \<Rightarrow> LogicalType" where
  "TypeToLogicalType context type_info =
     (if type_name type_info = ''tinyint'' then
        (if column_type type_info = ''tinyint(1)''
            \<and> TryGetCurrentSetting context ''mysql_tinyint1_as_boolean''
         then plain BOOLEAN
         else (if Contains (column_type type_info) ''unsigned'' then plain UTINYINT else plain TINYINT))
      else if type_name type_info = ''smallint'' then (if Contains (column_type type_info) ''unsigned'' then plain USMALLINT else plain SMALLINT)
      else if type_name type_info = ''mediumint'' \<or> type_name type_info = ''int''
        then (if Contains (column_type type_info) ''unsigned'' then plain UINTEGER else plain INTEGER)
      else if type_name type_info = ''bigint'' then (if Contains (column_type type_info) ''unsigned'' then plain UBIGINT else plain BIGINT)
      else if type_name type_info = ''float'' then plain FLOAT
      else if type_name type_info = ''double'' then plain DOUBLE
      else if type_name type_info = ''date'' then plain DATE
      else if type_name type_info = ''time'' then plain VARCHAR
      else if type_name type_info = ''timestamp'' then plain TIMESTAMP_TZ
      else if type_name type_info = ''year'' then plain INTEGER
      else if type_name type_info = ''datetime'' then plain TIMESTAMP
      else if type_name type_info = ''decimal'' then
        (if precision type_info > 0 \<and> precision type_info \<le> 38
         then LogicalType DECIMAL (DecimalTypeInfo (precision type_info) (scale type_info))
         else plain DOUBLE)
      else if type_name type_info = ''json'' then plain VARCHAR
      else if type_name type_info = ''enum'' then plain VARCHAR
      else if type_name type_info = ''set'' then plain VARCHAR
      else if type_name type_info = ''bit'' then
        (if column_type type_info = ''bit(1)'' \<and> TryGetCurrentSetting context ''mysql_bit1_as_boolean''
         then plain BOOLEAN
         else plain BLOB)
      else if type_name type_info \<in> {''blob'', ''binary'', ''varbinary'', ''geometry'', ''point'',
             ''linestring'', ''polygon'', ''multipoint'', ''multilinestring'', ''multipolygon'',
             ''geomcollection''}
        then plain BLOB
      else if type_name type_info \<in> {''varchar'', ''mediumtext'', ''longtext'', ''text'', ''enum'', ''char''}
        then plain VARCHAR
      else plain VARCHAR)"

text \<open>
  The display width a column type is declared with, in the words of the specification:
  what stands between the parentheses of the raw column-type string.
\<close>

definition declared_display_width :: "string \<Rightarrow> string" where
  "declared_display_width raw =
     takeWhile (\<lambda>c. c \<noteq> CHR '')'') (drop 1 (dropWhile (\<lambda>c. c \<noteq> CHR ''('') raw))"

text \<open>
  C7 (as amended). For a descriptor named \<open>tinyint\<close>: the result is boolean when the raw
  column-type string is exactly \<open>tinyint(1)\<close> and the setting
  \<open>mysql_tinyint1_as_boolean\<close> is on; otherwise it is the unsigned tinyint when the raw
  string contains \<open>unsigned\<close> and the signed tinyint when it does not.
\<close>

theorem C7_tinyint:
  assumes "type_name type_info = ''tinyint''"
  shows "TypeToLogicalType context type_info =
     (if column_type type_info = ''tinyint(1)'' \<and> context ''mysql_tinyint1_as_boolean'' = Some True
      then plain BOOLEAN
      else if Contains (column_type type_info) ''unsigned'' then plain UTINYINT
      else plain TINYINT)"
  using assms
  by (cases "context ''mysql_tinyint1_as_boolean''")
    (simp_all add: TypeToLogicalType_def TryGetCurrentSetting_def)

theorem C7_tinyint_witness:
  "TypeToLogicalType [''mysql_tinyint1_as_boolean'' \<mapsto> True]
     \<lparr>type_name = ''tinyint'', column_type = ''tinyint(1)'', precision = 0, scale = 0\<rparr> = plain BOOLEAN
   \<and> TypeToLogicalType Map.empty
     \<lparr>type_name = ''tinyint'', column_type = ''tinyint(1)'', precision = 0, scale = 0\<rparr> = plain TINYINT
   \<and> TypeToLogicalType Map.empty
     \<lparr>type_name = ''tinyint'', column_type = ''tinyint(3) unsigned'', precision = 0, scale = 0\<rparr> = plain UTINYINT"
  using C7_tinyint[of "\<lparr>type_name = ''tinyint'', column_type = ''tinyint(1)'', precision = 0, scale = 0\<rparr>"
      "[''mysql_tinyint1_as_boolean'' \<mapsto> True]"]
    C7_tinyint[of "\<lparr>type_name = ''tinyint'', column_type = ''tinyint(1)'', precision = 0, scale = 0\<rparr>"
      Map.empty]
    C7_tinyint[of "\<lparr>type_name = ''tinyint'', column_type = ''tinyint(3) unsigned'', precision = 0, scale = 0\<rparr>"
      Map.empty]
  by simp

text \<open>
  C7 (as stated) fails: \<open>tinyint(1) unsigned\<close> is declared with display width 1, the setting
  is on, and the result is the unsigned tinyint, not boolean.
\<close>

theorem C7_tinyint1_unsigned_counterexample:
  "declared_display_width ''tinyint(1) unsigned'' = ''1''
   \<and> TypeToLogicalType [''mysql_tinyint1_as_boolean'' \<mapsto> True]
       \<lparr>type_name = ''tinyint'', column_type = ''tinyint(1) unsigned'', precision = 0, scale = 0\<rparr>
     = plain UTINYINT
   \<and> plain UTINYINT \<noteq> plain BOOLEAN"
  by (simp add: declared_display_width_def TypeToLogicalType_def TryGetCurrentSetting_def
      plain_def)

section \<open>The catalog set\<close>

text \<open>
  A catalog entry is its name, its kind and an identity (\<open>oid\<close>), which tells apart two
  entries of the same name. \<^verbatim>\<open>DropInfo\<close> is DuckDB's; only the fields \<^verbatim>\<open>DropEntry\<close> reads
  are kept.
\<close>

datatype CatalogType = SCHEMA_ENTRY | TABLE_ENTRY | VIEW_ENTRY | INDEX_ENTRY

record CatalogEntry =
  name :: string
  entry_type :: CatalogType
  oid :: nat

datatype OnEntryNotFound = THROW_EXCEPTION | RETURN_NULL

record DropInfo =
  drop_type :: CatalogType
  drop_name :: string
  if_not_found :: OnEntryNotFound
  cascade :: bool

text \<open>
  A hash map is modelled by the list of its pairs, in insertion order, and by the
  equality \<open>eq\<close> it compares keys with: \<open>map_find\<close> is \<^verbatim>\<open>find\<close>, \<open>map_insert\<close> is
  \<^verbatim>\<open>insert\<close> (which leaves the map alone when an equal key is present) and \<open>map_erase\<close> is
  \<^verbatim>\<open>erase\<close>. A \<^verbatim>\<open>case_insensitive_map_t\<close> compares keys with \<open>CIEquals\<close>.
\<close>

fun map_find :: "(string \<Rightarrow> string \<Rightarrow> bool) \<Rightarrow> string \<Rightarrow> (string \<times> 'v) list \<Rightarrow> 'v option" where
  "map_find eq k [] = None"
| "map_find eq k ((k', v) # m) = (if eq k' k then Some v else map_find eq k m)"

definition map_insert ::
  "(string \<Rightarrow> string \<Rightarrow> bool) \<Rightarrow> string \<times> 'v \<Rightarrow> (string \<times> 'v) list \<Rightarrow> (string \<times> 'v) list" where
  "map_insert eq kv m = (case map_find eq (fst kv) m of None \<Rightarrow> m @ [kv] | Some _ \<Rightarrow> m)"

definition map_erase ::
  "(string \<Rightarrow> string \<Rightarrow> bool) \<Rightarrow> string \<Rightarrow> (string \<times> 'v) list \<Rightarrow> (string \<times> 'v) list" where
  "map_erase eq k m = filter (\<lambda>kv. \<not> eq (fst kv) k) m"

text \<open>
  The members of \<^verbatim>\<open>class MySQLCatalogSet\<close>, as \<^verbatim>\<open>mysql_catalog_set.cpp\<close> uses them.
  \<^verbatim>\<open>GetEntry\<close> looks a name up in \<^verbatim>\<open>entries\<close> first and only then in \<^verbatim>\<open>entry_map\<close>, which
  it calls "the case insensitive map" and which maps a name to the name an entry is stored
  under: \<^verbatim>\<open>entries\<close> compares names exactly, \<^verbatim>\<open>entry_map\<close> compares them with
  \<open>CIEquals\<close>. The declaration of \<^verbatim>\<open>mysql_catalog_set.hpp\<close> among the sources has no
  \<^verbatim>\<open>entry_map\<close> and is not the one of this \<^verbatim>\<open>.cpp\<close>. The key equality \<open>entries_eq\<close> of
  \<^verbatim>\<open>entries\<close> is an argument of the operations; the code's is \<open>(=)\<close>, and what is proved
  for every \<open>entries_eq\<close> does not depend on it.
\<close>

record MySQLCatalogSet =
  entries :: "(string \<times> CatalogEntry) list"
  entry_map :: "(string \<times> string) list"
  is_loaded :: bool

definition new_MySQLCatalogSet :: MySQLCatalogSet where
  "new_MySQLCatalogSet = \<lparr>entries = [], entry_map = [], is_loaded = False\<rparr>"

definition CreateEntry ::
  "(string \<Rightarrow> string \<Rightarrow> bool) \<Rightarrow> CatalogEntry \<Rightarrow> MySQLCatalogSet
     \<Rightarrow> (error + CatalogEntry) \<times> MySQLCatalogSet" where
  "CreateEntry entries_eq entry s =
     (if name entry = []
      then (Inl (InternalException ''MySQLCatalogSet::CreateEntry called with empty name''), s)
      else (Inr entry,
            s\<lparr>entry_map := map_insert CIEquals (name entry, name entry) (entry_map s),
              entries := map_insert entries_eq (name entry, entry) (entries s)\<rparr>))"

text \<open>
  \<^verbatim>\<open>LoadEntries\<close> is pure virtual: the discovery procedure of the subclass. It is a
  parameter of the model, given by the entries it hands to \<^verbatim>\<open>CreateEntry\<close>, in order, and by
  the error it raises after them, if any. An error of \<^verbatim>\<open>CreateEntry\<close> ends it as well.
\<close>

record discovery =
  found :: "CatalogEntry list"
  failure :: "error option"

fun create_all ::
  "(string \<Rightarrow> string \<Rightarrow> bool) \<Rightarrow> CatalogEntry list \<Rightarrow> MySQLCatalogSet
     \<Rightarrow> error option \<times> MySQLCatalogSet" where
  "create_all entries_eq [] s = (None, s)"
| "create_all entries_eq (e # es) s =
     (case CreateEntry entries_eq e s of
        (Inl err, s') \<Rightarrow> (Some err, s')
      | (Inr _, s') \<Rightarrow> create_all entries_eq es s')"

definition LoadEntries ::
  "(string \<Rightarrow> string \<Rightarrow> bool) \<Rightarrow> discovery \<Rightarrow> MySQLCatalogSet \<Rightarrow> error option \<times> MySQLCatalogSet" where
  "LoadEntries entries_eq d s =
     (case create_all entries_eq (found d) s of
        (Some err, s') \<Rightarrow> (Some err, s')
      | (None, s') \<Rightarrow> (failure d, s'))"

text \<open>
  The first three lines of \<^verbatim>\<open>GetEntry\<close> and of \<^verbatim>\<open>Scan\<close>: the flag is set, then
  \<^verbatim>\<open>LoadEntries\<close> runs. \<open>find_entry\<close> is the rest of \<^verbatim>\<open>GetEntry\<close>, under the lock.
  Every operation returns its outcome and the state it leaves, also when it throws.
  \<open>Scan\<close> returns the entries it passes to the callback.
\<close>

definition ensure_loaded ::
  "(string \<Rightarrow> string \<Rightarrow> bool) \<Rightarrow> discovery \<Rightarrow> MySQLCatalogSet \<Rightarrow> error option \<times> MySQLCatalogSet" where
  "ensure_loaded entries_eq d s =
     (if \<not> is_loaded s then LoadEntries entries_eq d (s\<lparr>is_loaded := True\<rparr>) else (None, s))"

definition find_entry :: "(string \<Rightarrow> string \<Rightarrow> bool) \<Rightarrow> string \<Rightarrow> MySQLCatalogSet \<Rightarrow> CatalogEntry option" where
  "find_entry entries_eq nm s =
     (case map_find entries_eq nm (entries s) of
        Some entry \<Rightarrow> Some entry
      | None \<Rightarrow>
          (case map_find CIEquals nm (entry_map s) of
             None \<Rightarrow> None
           | Some name_entry \<Rightarrow> map_find entries_eq name_entry (entries s)))"

definition GetEntry ::
  "(string \<Rightarrow> string \<Rightarrow> bool) \<Rightarrow> discovery \<Rightarrow> string \<Rightarrow> MySQLCatalogSet
     \<Rightarrow> (error + CatalogEntry option) \<times> MySQLCatalogSet" where
  "GetEntry entries_eq d nm s =
     (case ensure_loaded entries_eq d s of
        (Some err, s') \<Rightarrow> (Inl err, s')
      | (None, s') \<Rightarrow> (Inr (find_entry entries_eq nm s'), s'))"

definition Scan ::
  "(string \<Rightarrow> string \<Rightarrow> bool) \<Rightarrow> discovery \<Rightarrow> MySQLCatalogSet
     \<Rightarrow> (error + CatalogEntry list) \<times> MySQLCatalogSet" where
  "Scan entries_eq d s =
     (case ensure_loaded entries_eq d s of
        (Some err, s') \<Rightarrow> (Inl err, s')
      | (None, s') \<Rightarrow> (Inr (map snd (entries s')), s'))"

text \<open>
  \<^verbatim>\<open>DropEntry\<close>. DuckDB's \<^verbatim>\<open>CatalogTypeToString\<close> and the transaction's \<^verbatim>\<open>Query\<close> are
  parameters; \<open>Query q\<close> is the error the statement \<open>q\<close> raises, \<open>None\<close> when it raises
  none.
\<close>

definition drop_query :: "(CatalogType \<Rightarrow> string) \<Rightarrow> DropInfo \<Rightarrow> string" where
  "drop_query CatalogTypeToString info =
     ''DROP '' @ CatalogTypeToString (drop_type info) @ '' ''
       @ (if if_not_found info = RETURN_NULL then '' IF EXISTS '' else [])
       @ WriteIdentifier (drop_name info)
       @ (if drop_type info \<noteq> SCHEMA_ENTRY \<and> cascade info then '' CASCADE'' else [])"

definition DropEntry ::
  "(string \<Rightarrow> string \<Rightarrow> bool) \<Rightarrow> (CatalogType \<Rightarrow> string) \<Rightarrow> (string \<Rightarrow> error option) \<Rightarrow> DropInfo
     \<Rightarrow> MySQLCatalogSet \<Rightarrow> (error + unit) \<times> MySQLCatalogSet" where
  "DropEntry entries_eq CatalogTypeToString Query info s =
     (case Query (drop_query CatalogTypeToString info) of
        Some err \<Rightarrow> (Inl err, s)
      | None \<Rightarrow> (Inr (), s\<lparr>entries := map_erase entries_eq (drop_name info) (entries s)\<rparr>))"

definition ClearEntries :: "MySQLCatalogSet \<Rightarrow> MySQLCatalogSet" where
  "ClearEntries s = s\<lparr>entry_map := [], entries := [], is_loaded := False\<rparr>"

subsection \<open>What the operations keep\<close>

lemma map_insert_keeps: "set m \<subseteq> set (map_insert eq kv m)"
  by (auto simp: map_insert_def split: option.splits)

lemma CreateEntry_keeps: "set (entries s) \<subseteq> set (entries (snd (CreateEntry eq e s)))"
  using map_insert_keeps[of "entries s" eq "(name e, e)"] by (simp add: CreateEntry_def)

lemma create_all_keeps: "set (entries s) \<subseteq> set (entries (snd (create_all eq es s)))"
proof (induction es arbitrary: s)
  case Nil
  show ?case by simp
next
  case (Cons e es)
  show ?case
  proof (cases "CreateEntry eq e s")
    case (Pair r s')
    with CreateEntry_keeps[of s eq e] have k: "set (entries s) \<subseteq> set (entries s')" by simp
    show ?thesis
    proof (cases r)
      case (Inl err)
      with Pair k show ?thesis by simp
    next
      case (Inr x)
      with Pair k Cons.IH[of s'] show ?thesis by auto
    qed
  qed
qed

lemma LoadEntries_keeps: "set (entries s) \<subseteq> set (entries (snd (LoadEntries eq d s)))"
  using create_all_keeps[of s eq "found d"]
  by (cases "create_all eq (found d) s") (simp add: LoadEntries_def split: option.splits)

lemma CreateEntry_is_loaded: "is_loaded (snd (CreateEntry eq e s)) = is_loaded s"
  by (simp add: CreateEntry_def)

lemma create_all_is_loaded: "is_loaded (snd (create_all eq es s)) = is_loaded s"
proof (induction es arbitrary: s)
  case Nil
  show ?case by simp
next
  case (Cons e es)
  show ?case
  proof (cases "CreateEntry eq e s")
    case (Pair r s')
    with CreateEntry_is_loaded[of eq e s] have "is_loaded s' = is_loaded s" by simp
    with Pair Cons.IH[of s'] show ?thesis by (cases r) simp_all
  qed
qed

lemma LoadEntries_is_loaded: "is_loaded (snd (LoadEntries eq d s)) = is_loaded s"
  using create_all_is_loaded[of eq "found d" s]
  by (cases "create_all eq (found d) s") (simp add: LoadEntries_def split: option.splits)

lemma GetEntry_loaded: "is_loaded s \<Longrightarrow> GetEntry eq d nm s = (Inr (find_entry eq nm s), s)"
  by (simp add: GetEntry_def ensure_loaded_def)

lemma Scan_loaded: "is_loaded s \<Longrightarrow> Scan eq d s = (Inr (map snd (entries s)), s)"
  by (simp add: Scan_def ensure_loaded_def)

definition foo_entry :: CatalogEntry where
  "foo_entry = \<lparr>name = ''foo'', entry_type = TABLE_ENTRY, oid = 1\<rparr>"

definition nothing_found :: discovery where
  "nothing_found = \<lparr>found = [], failure = None\<rparr>"

definition Foo_entry :: CatalogEntry where
  "Foo_entry = \<lparr>name = ''Foo'', entry_type = TABLE_ENTRY, oid = 2\<rparr>"

definition drop_foo :: DropInfo where
  "drop_foo = \<lparr>drop_type = TABLE_ENTRY, drop_name = ''foo'', if_not_found = THROW_EXCEPTION, cascade = False\<rparr>"

definition kind_name :: "CatalogType \<Rightarrow> string" where
  "kind_name t = (case t of SCHEMA_ENTRY \<Rightarrow> ''SCHEMA'' | TABLE_ENTRY \<Rightarrow> ''TABLE''
                  | VIEW_ENTRY \<Rightarrow> ''VIEW'' | INDEX_ENTRY \<Rightarrow> ''INDEX'')"

text \<open>
  The state after \<open>CreateEntry\<close> of \<open>foo\<close>, a \<open>DropEntry\<close> of \<open>foo\<close> whose remote statement
  succeeds, and \<open>CreateEntry\<close> of \<open>Foo\<close>.
\<close>

definition foo_dropped_Foo_created :: MySQLCatalogSet where
  "foo_dropped_Foo_created =
     snd (CreateEntry (=) Foo_entry
       (snd (DropEntry (=) kind_name (\<lambda>q. None) drop_foo
         (snd (CreateEntry (=) foo_entry new_MySQLCatalogSet)))))"

lemma CIEquals_foo_Foo: "CIEquals ''foo'' ''Foo''"
  by code_simp

lemma CIEquals_foo_FOO: "CIEquals ''foo'' ''FOO''"
  by code_simp

lemma CIEquals_FOO_Foo: "CIEquals ''FOO'' ''Foo''"
  by code_simp

text \<open>
  C4. The property fails in the code. \<^verbatim>\<open>DropEntry\<close> erases the entry from \<^verbatim>\<open>entries\<close> and
  nothing from \<^verbatim>\<open>entry_map\<close>, and the \<^verbatim>\<open>insert\<close> of \<^verbatim>\<open>CreateEntry\<close> does not overwrite
  \<^verbatim>\<open>entry_map\<close>. After creating \<open>foo\<close>, dropping it and creating \<open>Foo\<close>, the set stores
  the entry \<open>Foo\<close> while \<^verbatim>\<open>entry_map\<close> still sends every spelling of it to \<open>foo\<close>:
  \<open>GetEntry\<close> finds the entry under \<open>Foo\<close> and finds nothing under \<open>FOO\<close>, which differs
  from the stored name in case only.
\<close>

theorem C4_stale_entry_map_hides_entry:
  "foo_dropped_Foo_created
       = \<lparr>entries = [(''Foo'', Foo_entry)], entry_map = [(''foo'', ''foo'')], is_loaded = False\<rparr>
   \<and> CIEquals ''FOO'' ''Foo''
   \<and> GetEntry (=) nothing_found ''Foo'' foo_dropped_Foo_created
       = (Inr (Some Foo_entry),
          \<lparr>entries = [(''Foo'', Foo_entry)], entry_map = [(''foo'', ''foo'')], is_loaded = True\<rparr>)
   \<and> GetEntry (=) nothing_found ''FOO'' foo_dropped_Foo_created
       = (Inr None,
          \<lparr>entries = [(''Foo'', Foo_entry)], entry_map = [(''foo'', ''foo'')], is_loaded = True\<rparr>)"
proof -
  have s: "foo_dropped_Foo_created
       = \<lparr>entries = [(''Foo'', Foo_entry)], entry_map = [(''foo'', ''foo'')], is_loaded = False\<rparr>"
    by (simp add: foo_dropped_Foo_created_def CreateEntry_def DropEntry_def map_insert_def
        map_erase_def new_MySQLCatalogSet_def foo_entry_def Foo_entry_def drop_foo_def
        CIEquals_foo_Foo)
  have g1: "GetEntry (=) nothing_found ''Foo'' foo_dropped_Foo_created
       = (Inr (Some Foo_entry),
          \<lparr>entries = [(''Foo'', Foo_entry)], entry_map = [(''foo'', ''foo'')], is_loaded = True\<rparr>)"
    by (simp add: s GetEntry_def ensure_loaded_def LoadEntries_def nothing_found_def find_entry_def)
  have g2: "GetEntry (=) nothing_found ''FOO'' foo_dropped_Foo_created
       = (Inr None,
          \<lparr>entries = [(''Foo'', Foo_entry)], entry_map = [(''foo'', ''foo'')], is_loaded = True\<rparr>)"
    by (simp add: s GetEntry_def ensure_loaded_def LoadEntries_def nothing_found_def find_entry_def
        CIEquals_foo_FOO)
  from s g1 g2 CIEquals_FOO_Foo show ?thesis by blast
qed

text \<open>
  C5. When the remote statement of \<open>DropEntry\<close> raises, \<open>DropEntry\<close> raises the same error
  and leaves the state as it was, so every later \<open>GetEntry\<close> answers as before; whenever
  \<open>DropEntry\<close> changes the state, the remote statement has raised no error.
\<close>

theorem C5_failed_drop_leaves_entry:
  assumes "Query (drop_query CatalogTypeToString info) = Some err"
  shows "DropEntry eq CatalogTypeToString Query info s = (Inl err, s)
     \<and> GetEntry eq d nm (snd (DropEntry eq CatalogTypeToString Query info s)) = GetEntry eq d nm s
     \<and> (\<forall>Q. snd (DropEntry eq CatalogTypeToString Q info s) \<noteq> s
            \<longrightarrow> Q (drop_query CatalogTypeToString info) = None)"
proof -
  have a: "DropEntry eq CatalogTypeToString Query info s = (Inl err, s)"
    using assms by (simp add: DropEntry_def)
  have b: "\<forall>Q. snd (DropEntry eq CatalogTypeToString Q info s) \<noteq> s
            \<longrightarrow> Q (drop_query CatalogTypeToString info) = None"
    by (auto simp: DropEntry_def split: option.splits)
  from a b show ?thesis by simp
qed

definition failing_query :: "string \<Rightarrow> error option" where
  "failing_query q = Some (IOException ''remote error'')"

theorem C5_failed_drop_leaves_entry_witness:
  "DropEntry (=) kind_name failing_query drop_foo
       (snd (CreateEntry (=) foo_entry new_MySQLCatalogSet))
     = (Inl (IOException ''remote error''), snd (CreateEntry (=) foo_entry new_MySQLCatalogSet))
   \<and> fst (GetEntry (=) nothing_found ''foo''
         (snd (DropEntry (=) kind_name failing_query drop_foo
            (snd (CreateEntry (=) foo_entry new_MySQLCatalogSet)))))
     = Inr (Some foo_entry)"
proof -
  have q: "failing_query (drop_query kind_name drop_foo) = Some (IOException ''remote error'')"
    by (simp add: failing_query_def)
  have g: "fst (GetEntry (=) nothing_found ''foo''
        (snd (CreateEntry (=) foo_entry new_MySQLCatalogSet)))
      = Inr (Some foo_entry)"
    by (simp add: GetEntry_def ensure_loaded_def LoadEntries_def nothing_found_def find_entry_def
        CreateEntry_def foo_entry_def new_MySQLCatalogSet_def map_insert_def CIEquals_def)
  show ?thesis
    using C5_failed_drop_leaves_entry[where Query = failing_query and CatalogTypeToString = kind_name
        and info = drop_foo and s = "snd (CreateEntry (=) foo_entry new_MySQLCatalogSet)"
        and d = nothing_found and nm = "''foo''" and eq = "(=)", OF q] g
    by simp
qed

subsection \<open>Operations other than \<open>ClearEntries\<close>\<close>

datatype operation =
    OpGetEntry discovery string
  | OpScan discovery
  | OpCreateEntry CatalogEntry
  | OpDropEntry "string \<Rightarrow> error option" DropInfo

fun step ::
  "(string \<Rightarrow> string \<Rightarrow> bool) \<Rightarrow> (CatalogType \<Rightarrow> string) \<Rightarrow> operation \<Rightarrow> MySQLCatalogSet
     \<Rightarrow> MySQLCatalogSet" where
  "step eq cts (OpGetEntry d nm) s = snd (GetEntry eq d nm s)"
| "step eq cts (OpScan d) s = snd (Scan eq d s)"
| "step eq cts (OpCreateEntry e) s = snd (CreateEntry eq e s)"
| "step eq cts (OpDropEntry Query info) s = snd (DropEntry eq cts Query info s)"

lemma step_is_loaded: "is_loaded s \<Longrightarrow> is_loaded (step eq cts op s)"
  by (cases op) (simp_all add: GetEntry_loaded Scan_loaded CreateEntry_is_loaded DropEntry_def
      split: option.splits)

lemma steps_is_loaded: "is_loaded s \<Longrightarrow> is_loaded (fold (step eq cts) ops s)"
  by (induction ops arbitrary: s) (simp_all add: step_is_loaded)

text \<open>
  C10. \<open>GetEntry\<close> and \<open>Scan\<close> run the discovery on the state whose flag is already set.
  When the discovery raises on an unloaded set, both raise its error and leave the state
  \<open>s'\<close> the discovery left: loaded, with the entries created before the error. After any
  operations on \<open>s'\<close> other than \<open>ClearEntries\<close>, \<open>GetEntry\<close> and \<open>Scan\<close> are a lookup and
  a listing that leave the state unchanged, whatever the discovery procedure is: it is
  not run again. \<open>ClearEntries\<close> resets the flag.
\<close>

theorem C10_failed_discovery_leaves_loaded:
  assumes "\<not> is_loaded s"
    and "LoadEntries eq d (s\<lparr>is_loaded := True\<rparr>) = (Some err, s')"
  shows "GetEntry eq d nm s = (Inl err, s')
     \<and> Scan eq d s = (Inl err, s')
     \<and> is_loaded s'
     \<and> set (entries s) \<subseteq> set (entries s')
     \<and> (\<forall>ops d' nm'. GetEntry eq d' nm' (fold (step eq cts) ops s')
            = (Inr (find_entry eq nm' (fold (step eq cts) ops s')), fold (step eq cts) ops s'))
     \<and> (\<forall>ops d'. Scan eq d' (fold (step eq cts) ops s')
            = (Inr (map snd (entries (fold (step eq cts) ops s'))), fold (step eq cts) ops s'))
     \<and> \<not> is_loaded (ClearEntries s')"
proof -
  have g: "GetEntry eq d nm s = (Inl err, s')" and sc: "Scan eq d s = (Inl err, s')"
    using assms by (simp_all add: GetEntry_def Scan_def ensure_loaded_def)
  have "is_loaded (snd (LoadEntries eq d (s\<lparr>is_loaded := True\<rparr>)))"
    by (simp add: LoadEntries_is_loaded)
  with assms(2) have l: "is_loaded s'" by simp
  have k: "set (entries s) \<subseteq> set (entries s')"
    using LoadEntries_keeps[of "s\<lparr>is_loaded := True\<rparr>" eq d] assms(2) by simp
  have later: "\<And>ops. is_loaded (fold (step eq cts) ops s')"
    using l by (rule steps_is_loaded)
  have c: "\<not> is_loaded (ClearEntries s')" by (simp add: ClearEntries_def)
  from g sc l k c show ?thesis
    by (simp add: GetEntry_loaded[OF later] Scan_loaded[OF later])
qed

definition lost_connection :: discovery where
  "lost_connection = \<lparr>found = [foo_entry], failure = Some (IOException ''lost connection'')\<rparr>"

theorem C10_failed_discovery_leaves_loaded_witness:
  "GetEntry (=) lost_connection ''foo'' new_MySQLCatalogSet
     = (Inl (IOException ''lost connection''),
        \<lparr>entries = [(''foo'', foo_entry)], entry_map = [(''foo'', ''foo'')], is_loaded = True\<rparr>)
   \<and> GetEntry (=) lost_connection ''foo''
        \<lparr>entries = [(''foo'', foo_entry)], entry_map = [(''foo'', ''foo'')], is_loaded = True\<rparr>
     = (Inr (Some foo_entry),
        \<lparr>entries = [(''foo'', foo_entry)], entry_map = [(''foo'', ''foo'')], is_loaded = True\<rparr>)"
proof -
  have n: "\<not> is_loaded new_MySQLCatalogSet" by (simp add: new_MySQLCatalogSet_def)
  have l: "LoadEntries (=) lost_connection (new_MySQLCatalogSet\<lparr>is_loaded := True\<rparr>)
      = (Some (IOException ''lost connection''),
         \<lparr>entries = [(''foo'', foo_entry)], entry_map = [(''foo'', ''foo'')], is_loaded = True\<rparr>)"
    by (simp add: LoadEntries_def lost_connection_def CreateEntry_def foo_entry_def
        new_MySQLCatalogSet_def map_insert_def)
  have f: "find_entry (=) ''foo''
      \<lparr>entries = [(''foo'', foo_entry)], entry_map = [(''foo'', ''foo'')], is_loaded = True\<rparr>
      = Some foo_entry"
    by (simp add: find_entry_def CIEquals_def)
  let ?S = "\<lparr>entries = [(''foo'', foo_entry)], entry_map = [(''foo'', ''foo'')], is_loaded = True\<rparr>"
  from C10_failed_discovery_leaves_loaded[OF n l, where nm = "''foo''" and cts = kind_name]
  have g: "GetEntry (=) lost_connection ''foo'' new_MySQLCatalogSet
      = (Inl (IOException ''lost connection''), ?S)"
    and later: "\<forall>ops d' nm'. GetEntry (=) d' nm' (fold (step (=) kind_name) ops ?S)
        = (Inr (find_entry (=) nm' (fold (step (=) kind_name) ops ?S)),
           fold (step (=) kind_name) ops ?S)"
    by blast+
  from later have "GetEntry (=) lost_connection ''foo'' (fold (step (=) kind_name) [] ?S)
        = (Inr (find_entry (=) ''foo'' (fold (step (=) kind_name) [] ?S)),
           fold (step (=) kind_name) [] ?S)"
    by blast
  with g f show ?thesis by simp
qed

section \<open>Filter pushdown\<close>

text \<open>
  Modelled from the spec: the predicate nodes of the filter translator. The sources hold
  only the declarations of \<^verbatim>\<open>mysql_filter_pushdown.hpp\<close>; the table filters are DuckDB's.
  A node is a comparison with a constant, a conjunction of sub-filters, a membership in a
  set of constants, or unsupported; the column it applies to is given by the filter set.
  A constant is given by its text.
\<close>

datatype ExpressionType =
    COMPARE_EQUAL | COMPARE_LESSTHAN | COMPARE_LESSTHANOREQUALTO
  | COMPARE_GREATERTHAN | COMPARE_GREATERTHANOREQUALTO | COMPARE_NOTEQUAL

datatype TableFilter =
    ConstantFilter ExpressionType string
  | ConjunctionAndFilter "TableFilter list"
  | InFilter "string list"
  | UnsupportedFilter

text \<open>\<^verbatim>\<open>StringUtil::Join\<close>: the strings, with the separator between neighbours.\<close>

fun Join :: "string list \<Rightarrow> string \<Rightarrow> string" where
  "Join [] separator = []"
| "Join [x] separator = x"
| "Join (x # y # xs) separator = x @ separator @ Join (y # xs) separator"

text \<open>
  Modelled from the spec: \<^verbatim>\<open>MySQLFilterPushdown::TransformComparision\<close>, whose body is not in
  the sources. The six comparison operators are \<open>=\<close>, \<open><\<close>, \<open><=\<close>, \<open>>\<close>, \<open>>=\<close> and \<open><>\<close>.
\<close>

definition TransformComparision :: "ExpressionType \<Rightarrow> string" where
  "TransformComparision t =
     (case t of
        COMPARE_EQUAL \<Rightarrow> ''=''
      | COMPARE_LESSTHAN \<Rightarrow> ''<''
      | COMPARE_LESSTHANOREQUALTO \<Rightarrow> ''<=''
      | COMPARE_GREATERTHAN \<Rightarrow> ''>''
      | COMPARE_GREATERTHANOREQUALTO \<Rightarrow> ''>=''
      | COMPARE_NOTEQUAL \<Rightarrow> ''<>'')"

text \<open>
  Modelled from the spec: \<^verbatim>\<open>MySQLFilterPushdown::TransformFilter\<close>, whose body is not in the
  sources. A supported kind emits a parenthesized fragment: \<open>(col OP lit)\<close> with the
  literal quoted by \<open>WriteLiteral\<close>, \<open>(col IN (lit, lit, ...))\<close>, or the fragments of the
  sub-filters of a conjunction joined by \<open>AND\<close>. An unsupported kind emits nothing
  (\<open>None\<close>) and is left out of a conjunction; a conjunction none of whose sub-filters emits
  anything emits nothing.
\<close>

fun TransformFilter :: "string \<Rightarrow> TableFilter \<Rightarrow> string option"
  and transform_children :: "string \<Rightarrow> TableFilter list \<Rightarrow> string list" where
  "TransformFilter column_name (ConstantFilter comparison constant) =
     Some (''('' @ column_name @ '' '' @ TransformComparision comparison @ '' ''
             @ WriteLiteral constant @ '')'')"
| "TransformFilter column_name (InFilter constants) =
     Some (''('' @ column_name @ '' IN ('' @ Join (map WriteLiteral constants) '', '' @ ''))'')"
| "TransformFilter column_name (ConjunctionAndFilter children) =
     (let terms = transform_children column_name children
      in if terms = [] then None else Some (''('' @ Join terms '' AND '' @ '')''))"
| "TransformFilter column_name UnsupportedFilter = None"
| "transform_children column_name [] = []"
| "transform_children column_name (f # fs) =
     (case TransformFilter column_name f of
        None \<Rightarrow> transform_children column_name fs
      | Some t \<Rightarrow> t # transform_children column_name fs)"

text \<open>
  Modelled from the spec: \<^verbatim>\<open>MySQLFilterPushdown::TransformFilters\<close>, whose body is not in the
  sources. Each filter is attached to an index into \<open>column_ids\<close>; the column id found there
  is mapped to its name by \<open>names\<close>, the name is quoted by \<open>WriteIdentifier\<close>, and the
  fragments of the filters are combined with \<open>AND\<close>. The specification does not say what
  happens when an index or a column id is out of range: the model returns \<open>None\<close> there.
  No filter set gives the empty fragment.
\<close>

definition resolve_column :: "nat list \<Rightarrow> string list \<Rightarrow> nat \<Rightarrow> string option" where
  "resolve_column column_ids names i =
     (if i < length column_ids \<and> column_ids ! i < length names
      then Some (names ! (column_ids ! i)) else None)"

fun filter_terms :: "nat list \<Rightarrow> string list \<Rightarrow> (nat \<times> TableFilter) list \<Rightarrow> string list option" where
  "filter_terms column_ids names [] = Some []"
| "filter_terms column_ids names ((i, f) # rest) =
     (case resolve_column column_ids names i of
        None \<Rightarrow> None
      | Some column \<Rightarrow>
          (case filter_terms column_ids names rest of
             None \<Rightarrow> None
           | Some terms \<Rightarrow>
               (case TransformFilter (WriteIdentifier column) f of
                  None \<Rightarrow> Some terms
                | Some t \<Rightarrow> Some (t # terms))))"

definition TransformFilters ::
  "nat list \<Rightarrow> (nat \<times> TableFilter) list option \<Rightarrow> string list \<Rightarrow> string option" where
  "TransformFilters column_ids filters names =
     (case filters of
        None \<Rightarrow> Some []
      | Some fs \<Rightarrow> map_option (\<lambda>terms. Join terms '' AND '') (filter_terms column_ids names fs))"

text \<open>What a filter contributes, and which filters contribute.\<close>

definition parenthesized :: "string \<Rightarrow> bool" where
  "parenthesized t \<longleftrightarrow> t \<noteq> [] \<and> hd t = CHR ''('' \<and> last t = CHR '')''"

fun translatable :: "TableFilter \<Rightarrow> bool" where
  "translatable (ConstantFilter comparison constant) = True"
| "translatable (InFilter constants) = True"
| "translatable (ConjunctionAndFilter children) = list_ex translatable children"
| "translatable UnsupportedFilter = False"

lemma TransformFilter_translatable:
  "(TransformFilter cn f = None) = (\<not> translatable f)"
  "(transform_children cn fs = []) = (\<not> list_ex translatable fs)"
  by (induction cn f and cn fs rule: TransformFilter_transform_children.induct)
    (auto simp: Let_def split: option.splits)

lemma TransformFilter_parenthesized:
  "TransformFilter cn f = Some t \<Longrightarrow> parenthesized t"
  by (cases f) (auto simp: parenthesized_def Let_def split: if_splits)

definition column_term :: "nat list \<Rightarrow> string list \<Rightarrow> nat \<times> TableFilter \<Rightarrow> string option" where
  "column_term column_ids names p =
     TransformFilter (WriteIdentifier (names ! (column_ids ! fst p))) (snd p)"

lemma column_term_pair:
  "column_term column_ids names (i, f) = TransformFilter (WriteIdentifier (names ! (column_ids ! i))) f"
  by (simp add: column_term_def)

lemma column_term_None: "(column_term column_ids names p = None) = (\<not> translatable (snd p))"
  by (simp add: column_term_def TransformFilter_translatable)

lemma filter_terms_resolved:
  "list_all (\<lambda>p. resolve_column column_ids names (fst p) \<noteq> None) filters \<Longrightarrow>
   filter_terms column_ids names filters = Some (List.map_filter (column_term column_ids names) filters)"
proof (induction filters)
  case Nil
  show ?case by (simp add: List.map_filter_simps)
next
  case (Cons p filters)
  obtain i f where p: "p = (i, f)" by (cases p)
  from Cons.prems p have r: "resolve_column column_ids names i = Some (names ! (column_ids ! i))"
    by (simp add: resolve_column_def split: if_splits)
  from Cons have rest: "filter_terms column_ids names filters
      = Some (List.map_filter (column_term column_ids names) filters)"
    by simp
  show ?case
    by (cases "TransformFilter (WriteIdentifier (names ! (column_ids ! i))) f")
      (simp_all add: p r rest column_term_pair List.map_filter_simps)
qed

lemma filter_terms_unresolved:
  "\<not> list_all (\<lambda>p. resolve_column column_ids names (fst p) \<noteq> None) filters \<Longrightarrow>
   filter_terms column_ids names filters = None"
proof (induction filters)
  case Nil
  then show ?case by simp
next
  case (Cons p filters)
  obtain i f where p: "p = (i, f)" by (cases p)
  show ?case
  proof (cases "resolve_column column_ids names i")
    case None
    with p show ?thesis by simp
  next
    case (Some column)
    with Cons.prems p have "\<not> list_all (\<lambda>p. resolve_column column_ids names (fst p) \<noteq> None) filters"
      by simp
    then have "filter_terms column_ids names filters = None" by (rule Cons.IH)
    with Some p show ?thesis by simp
  qed
qed

lemma transform_children_map_filter:
  "transform_children cn fs = List.map_filter (TransformFilter cn) fs"
  by (induction fs) (simp_all add: List.map_filter_simps split: option.splits)

lemma map_filter_parenthesized:
  "list_all parenthesized (List.map_filter (column_term column_ids names) filters)"
proof (induction filters)
  case Nil
  show ?case by (simp add: List.map_filter_simps)
next
  case (Cons p filters)
  show ?case
  proof (cases "column_term column_ids names p")
    case None
    with Cons show ?thesis by (simp add: List.map_filter_simps)
  next
    case (Some t)
    then have "parenthesized t"
      unfolding column_term_def by (rule TransformFilter_parenthesized)
    with Some Cons show ?thesis by (simp add: List.map_filter_simps)
  qed
qed

lemma map_filter_length:
  "length (List.map_filter (column_term column_ids names) filters)
     = length (filter (\<lambda>p. translatable (snd p)) filters)"
proof (induction filters)
  case Nil
  show ?case by (simp add: List.map_filter_simps)
next
  case (Cons p filters)
  have "(column_term column_ids names p = None) = (\<not> translatable (snd p))"
    by (rule column_term_None)
  with Cons show ?case
    by (cases "column_term column_ids names p") (auto simp: List.map_filter_simps)
qed

lemma map_filter_translatable_only:
  "List.map_filter (column_term column_ids names) (filter (\<lambda>p. translatable (snd p)) filters)
     = List.map_filter (column_term column_ids names) filters"
proof (induction filters)
  case Nil
  show ?case by simp
next
  case (Cons p filters)
  have "(column_term column_ids names p = None) = (\<not> translatable (snd p))"
    by (rule column_term_None)
  with Cons show ?case
    by (cases "column_term column_ids names p") (auto simp: List.map_filter_simps)
qed

text \<open>
  C8. For every column-id list, name list and filter set, \<open>TransformFilters\<close> returns the
  fragments of the filters joined by \<open>AND\<close>, one per filter that can be translated and each
  in parentheses; a filter that cannot be translated contributes nothing and never makes
  the translation fail (no fragment is returned only when a filter's column does not
  resolve to a name, whatever the kinds of the filters). The fragment of a filter is built
  from its column name quoted by \<open>WriteIdentifier\<close>: \<open>(col OP lit)\<close> and
  \<open>(col IN (lit, ...))\<close> with every constant quoted by \<open>WriteLiteral\<close>, and for a
  conjunction the fragments of its sub-filters, built in the same way, joined by \<open>AND\<close>,
  the sub-filters that cannot be translated being left out.
\<close>

theorem C8_TransformFilters_terms:
  "TransformFilters column_ids (Some filters) names
       = (if list_all (\<lambda>p. resolve_column column_ids names (fst p) \<noteq> None) filters
          then Some (Join (List.map_filter (column_term column_ids names) filters) '' AND '')
          else None)
   \<and> TransformFilters column_ids None names = Some []
   \<and> list_all parenthesized (List.map_filter (column_term column_ids names) filters)
   \<and> length (List.map_filter (column_term column_ids names) filters)
       = length (filter (\<lambda>p. translatable (snd p)) filters)
   \<and> List.map_filter (column_term column_ids names) (filter (\<lambda>p. translatable (snd p)) filters)
       = List.map_filter (column_term column_ids names) filters
   \<and> column_term column_ids names (i, f)
       = TransformFilter (WriteIdentifier (names ! (column_ids ! i))) f
   \<and> TransformFilter cn (ConstantFilter comparison constant)
       = Some (''('' @ cn @ '' '' @ TransformComparision comparison @ '' '' @ WriteLiteral constant @ '')'')
   \<and> TransformFilter cn (InFilter constants)
       = Some (''('' @ cn @ '' IN ('' @ Join (map WriteLiteral constants) '', '' @ ''))'')
   \<and> TransformFilter cn (ConjunctionAndFilter children)
       = (if list_ex translatable children
          then Some (''('' @ Join (List.map_filter (TransformFilter cn) children) '' AND '' @ '')'')
          else None)
   \<and> TransformFilter cn UnsupportedFilter = None
   \<and> (TransformFilter cn f = None) = (\<not> translatable f)
   \<and> translatable f
       = (case f of
            ConstantFilter comparison constant \<Rightarrow> True
          | ConjunctionAndFilter children \<Rightarrow> list_ex translatable children
          | InFilter constants \<Rightarrow> True
          | UnsupportedFilter \<Rightarrow> False)
   \<and> TransformComparision COMPARE_EQUAL = ''=''
   \<and> TransformComparision COMPARE_LESSTHAN = ''<''
   \<and> TransformComparision COMPARE_LESSTHANOREQUALTO = ''<=''
   \<and> TransformComparision COMPARE_GREATERTHAN = ''>''
   \<and> TransformComparision COMPARE_GREATERTHANOREQUALTO = ''>=''
   \<and> TransformComparision COMPARE_NOTEQUAL = ''<>''
   \<and> Join [] separator = []
   \<and> Join [x] separator = x
   \<and> Join (x # y # xs) separator = x @ separator @ Join (y # xs) separator"
proof -
  have whole: "TransformFilters column_ids (Some filters) names
       = (if list_all (\<lambda>p. resolve_column column_ids names (fst p) \<noteq> None) filters
          then Some (Join (List.map_filter (column_term column_ids names) filters) '' AND '')
          else None)"
    by (simp add: TransformFilters_def filter_terms_resolved filter_terms_unresolved)
  have none: "TransformFilters column_ids None names = Some []"
    by (simp add: TransformFilters_def)
  have conj: "TransformFilter cn (ConjunctionAndFilter children)
       = (if list_ex translatable children
          then Some (''('' @ Join (List.map_filter (TransformFilter cn) children) '' AND '' @ '')'')
          else None)"
    using TransformFilter_translatable(2)[of cn children]
    by (auto simp: Let_def transform_children_map_filter)
  have tr: "translatable f
       = (case f of
            ConstantFilter comparison constant \<Rightarrow> True
          | ConjunctionAndFilter children \<Rightarrow> list_ex translatable children
          | InFilter constants \<Rightarrow> True
          | UnsupportedFilter \<Rightarrow> False)"
    by (cases f) simp_all
  have ops: "TransformComparision COMPARE_EQUAL = ''=''
       \<and> TransformComparision COMPARE_LESSTHAN = ''<''
       \<and> TransformComparision COMPARE_LESSTHANOREQUALTO = ''<=''
       \<and> TransformComparision COMPARE_GREATERTHAN = ''>''
       \<and> TransformComparision COMPARE_GREATERTHANOREQUALTO = ''>=''
       \<and> TransformComparision COMPARE_NOTEQUAL = ''<>''"
    by (simp add: TransformComparision_def)
  have simple: "TransformFilter cn (ConstantFilter comparison constant)
       = Some (''('' @ cn @ '' '' @ TransformComparision comparison @ '' '' @ WriteLiteral constant @ '')'')
     \<and> TransformFilter cn (InFilter constants)
       = Some (''('' @ cn @ '' IN ('' @ Join (map WriteLiteral constants) '', '' @ ''))'')
     \<and> TransformFilter cn UnsupportedFilter = None"
    by simp
  note parts = whole none map_filter_parenthesized[of column_ids names filters]
    map_filter_length[of column_ids names filters]
    map_filter_translatable_only[of column_ids names filters]
    column_term_pair[of column_ids names i f] simple conj
    TransformFilter_translatable(1)[of cn f] tr ops
    Join.simps(1)[of separator] Join.simps(2)[of x separator] Join.simps(3)[of x y xs separator]
  show ?thesis
    using parts by (intro conjI) blast+
qed

text \<open>
  An instance: a comparison on a column whose name holds a backtick, an unsupported
  filter, a conjunction of a comparison, an unsupported filter and a membership whose
  second constant holds a single quote, and a conjunction of an unsupported filter alone.
  A filter set with an unsupported filter only gives the empty fragment, and a filter on
  the fourth of three columns gives none.
\<close>

definition example_filters :: "(nat \<times> TableFilter) list" where
  "example_filters =
     [(0, ConstantFilter COMPARE_EQUAL ''x''),
      (1, UnsupportedFilter),
      (2, ConjunctionAndFilter
            [ConstantFilter COMPARE_GREATERTHANOREQUALTO ''5'',
             UnsupportedFilter,
             InFilter [''a'', ''it'' @ [squote] @ ''s'']]),
      (1, ConjunctionAndFilter [UnsupportedFilter])]"

definition example_names :: "string list" where
  "example_names = [''c0'', ''c1'', ''a'' @ [backtick] @ ''b'']"

theorem C8_TransformFilters_terms_witness:
  "TransformFilters [2, 0, 1] (Some example_filters) example_names
     = Some ([CHR ''('', backtick, CHR ''a'', backslash, backtick, CHR ''b'', backtick] @ '' = ''
               @ [squote, CHR ''x'', squote] @ '') AND ((''
               @ [backtick] @ ''c1'' @ [backtick] @ '' >= '' @ [squote, CHR ''5'', squote] @ '') AND (''
               @ [backtick] @ ''c1'' @ [backtick] @ '' IN ('' @ [squote, CHR ''a'', squote] @ '', ''
               @ [squote] @ ''it'' @ [backslash, squote] @ ''s'' @ [squote] @ '')))'')
   \<and> TransformFilters [2, 0, 1] (Some [(1, UnsupportedFilter)]) example_names = Some []
   \<and> TransformFilters [2, 0, 1] (Some [(3, ConstantFilter COMPARE_EQUAL ''x'')]) example_names = None"
  using C8_TransformFilters_terms[of "[2, 0, 1]" example_filters example_names]
    C8_TransformFilters_terms[of "[2, 0, 1]" "[(1, UnsupportedFilter)]" example_names]
    C8_TransformFilters_terms[of "[2, 0, 1]" "[(3, ConstantFilter COMPARE_EQUAL ''x'')]" example_names]
  by (simp add: example_filters_def example_names_def resolve_column_def column_term_pair
      List.map_filter_simps TransformComparision_def WriteIdentifier_def WriteLiteral_def
      WriteQuoted_def EscapeQuotes_def backtick_def squote_def backslash_def)

end
